theory Spec2Isabelle
  imports Main
begin

section \<open>LoggingLightRAG: the usage-logging wrapper of lightraglogger.py\<close>

text \<open>
  The module defines one class, \<open>LoggingLightRAG\<close>, a subclass of the retrieval engine
  that counts API calls, sums token usage, writes log lines to \<open>usage.log\<close> and appends
  JSON records to \<open>api_usage_log.json\<close>. The engine itself (\<open>ainsert\<close>, the inherited
  \<open>query\<close>, the inherited constructor, the tokenizer lookup) is not part of the module:
  each call of it enters the model as its outcome, an exception raised or a value returned.
\<close>

subsection \<open>Python values and exceptions\<close>

text \<open>
  The values a response is built from: \<open>None\<close>, integers, strings and dictionaries
  with string keys. A dictionary is an association list read with \<open>map_of\<close>.
\<close>

datatype pyval =
    PNone
  | PInt int
  | PStr string
  | PDict "(string \<times> pyval) list"

text \<open>
  Exception classes. The first five derive from \<open>Exception\<close>; the last three derive
  from \<open>BaseException\<close> only, so that \<open>except Exception\<close> does not catch them.
\<close>

datatype exc_class =
    TypeError
  | AttributeError
  | KeyError
  | OSError
  | OtherException string
  | CancelledError
  | KeyboardInterrupt
  | SystemExit

datatype pyexc = PyExc (exc_cls: exc_class) (exc_msg: string)

fun is_Exception :: "pyexc \<Rightarrow> bool" where
  "is_Exception (PyExc CancelledError m) = False"
| "is_Exception (PyExc KeyboardInterrupt m) = False"
| "is_Exception (PyExc SystemExit m) = False"
| "is_Exception (PyExc c m) = True"

text \<open>The substring test that \<open>in\<close> performs on two strings.\<close>

fun starts_with :: "string \<Rightarrow> string \<Rightarrow> bool" where
  "starts_with [] s = True"
| "starts_with (p # ps) [] = False"
| "starts_with (p # ps) (c # cs) = (p = c \<and> starts_with ps cs)"

fun str_contains :: "string \<Rightarrow> string \<Rightarrow> bool" where
  "str_contains p [] = (p = [])"
| "str_contains p (c # cs) = (starts_with p (c # cs) \<or> str_contains p cs)"

text \<open>\<open>key in obj\<close>: key membership on a dictionary, substring on a string, TypeError
  on \<open>None\<close> and on an integer.\<close>

fun py_contains :: "string \<Rightarrow> pyval \<Rightarrow> pyexc + bool" where
  "py_contains k (PDict d) = Inr (map_of d k \<noteq> None)"
| "py_contains k (PStr s) = Inr (str_contains k s)"
| "py_contains k PNone = Inl (PyExc TypeError ''argument of type NoneType is not iterable'')"
| "py_contains k (PInt n) = Inl (PyExc TypeError ''argument of type int is not iterable'')"

text \<open>\<open>obj[key]\<close> with a string key.\<close>

fun py_getitem :: "pyval \<Rightarrow> string \<Rightarrow> pyexc + pyval" where
  "py_getitem (PDict d) k = (case map_of d k of None \<Rightarrow> Inl (PyExc KeyError k) | Some v \<Rightarrow> Inr v)"
| "py_getitem (PStr s) k = Inl (PyExc TypeError ''string indices must be integers'')"
| "py_getitem PNone k = Inl (PyExc TypeError ''NoneType object is not subscriptable'')"
| "py_getitem (PInt n) k = Inl (PyExc TypeError ''int object is not subscriptable'')"

text \<open>\<open>obj.get(key, default)\<close>: only a dictionary has the method.\<close>

fun py_get :: "pyval \<Rightarrow> string \<Rightarrow> pyval \<Rightarrow> pyexc + pyval" where
  "py_get (PDict d) k dflt = Inr (case map_of d k of None \<Rightarrow> dflt | Some v \<Rightarrow> v)"
| "py_get (PStr s) k dflt = Inl (PyExc AttributeError ''str object has no attribute get'')"
| "py_get PNone k dflt = Inl (PyExc AttributeError ''NoneType object has no attribute get'')"
| "py_get (PInt n) k dflt = Inl (PyExc AttributeError ''int object has no attribute get'')"

text \<open>\<open>n += v\<close> for an integer \<open>n\<close>: defined when \<open>v\<close> is an integer.
  (The messages of the built-in errors are written without their quotation marks.)\<close>

fun py_iadd :: "int \<Rightarrow> pyval \<Rightarrow> pyexc + int" where
  "py_iadd n (PInt t) = Inr (n + t)"
| "py_iadd n PNone = Inl (PyExc TypeError ''unsupported operand type(s) for +=: int and NoneType'')"
| "py_iadd n (PStr s) = Inl (PyExc TypeError ''unsupported operand type(s) for +=: int and str'')"
| "py_iadd n (PDict d) = Inl (PyExc TypeError ''unsupported operand type(s) for +=: int and dict'')"

text \<open>
  The second argument of \<open>isinstance\<close> is a class or, as in \<open>_log_initialization\<close>, some
  other object. \<open>dataclasses.dataclass\<close> is a function (the decorator), and
  \<open>isinstance\<close> raises TypeError when its second argument is not a type.
\<close>

datatype classinfo = Class string | Function string

definition dataclass :: classinfo where
  "dataclass = Function ''dataclass''"

fun py_isinstance :: "string list \<Rightarrow> classinfo \<Rightarrow> pyexc + bool" where
  "py_isinstance mro (Class c) = Inr (c \<in> set mro)"
| "py_isinstance mro (Function f) =
     Inl (PyExc TypeError ''isinstance() arg 2 must be a type, a tuple of types, or a union'')"

text \<open>\<open>os.path.join\<close> of a directory and one component.\<close>

definition path_join :: "string \<Rightarrow> string \<Rightarrow> string" where
  "path_join d f =
     (if f \<noteq> [] \<and> hd f = CHR ''/'' then f
      else if d = [] \<or> last d = CHR ''/'' then d @ f
      else d @ ''/'' @ f)"

subsection \<open>The wrapper's state\<close>

datatype level = INFO | WARNING | ERROR

text \<open>A log message is the f-string before rendering: its literal parts and the values
  formatted into it.\<close>

datatype fragment = Lit string | Val pyval | Exc pyexc

type_synonym log_line = "level \<times> fragment list"

text \<open>
  \<open>usage_log\<close> is the sequence of lines the logger has written to \<open>usage.log\<close>;
  \<open>files\<close> is the content of the JSON files, each a sequence of serialized blocks.
\<close>

record wrapper =
  log_dir :: string
  api_call_count :: int
  total_token_usage :: int
  encoding :: string
  usage_log :: "log_line list"
  files :: "string \<rightharpoonup> pyval list"

definition logging :: "level \<Rightarrow> fragment list \<Rightarrow> wrapper \<Rightarrow> wrapper" where
  "logging lv msg st = st\<lparr>usage_log := usage_log st @ [(lv, msg)]\<rparr>"

text \<open>
  What the environment contributes to one call: the result of \<open>time.strftime\<close> and
  whether opening or writing the file fails (the message of the OSError raised; the
  failure is taken at \<open>open\<close>, before anything is written).
\<close>

record call_env =
  now :: string
  write_fault :: "string option"

subsection \<open>The methods\<close>

definition write_to_file :: "string \<Rightarrow> pyval \<Rightarrow> call_env \<Rightarrow> wrapper \<Rightarrow> wrapper" where
  "write_to_file filename data env st =
     (let filepath = path_join (log_dir st) filename in
      case write_fault env of
        None \<Rightarrow>
          logging INFO [Lit ''Data written to '', Lit filepath, Lit ''.'']
            (st\<lparr>files := (files st)(filepath \<mapsto>
                   (case files st filepath of None \<Rightarrow> [] | Some blocks \<Rightarrow> blocks) @ [data])\<rparr>)
      | Some m \<Rightarrow>
          logging ERROR [Lit ''Error writing data to file '', Lit filename, Lit '': '',
                         Exc (PyExc OSError m)] st)"

definition log_api_usage ::
    "string \<Rightarrow> pyval \<Rightarrow> call_env \<Rightarrow> wrapper \<Rightarrow> (pyexc + unit) \<times> wrapper" where
  "log_api_usage operation response env st =
     (let st1 = st\<lparr>api_call_count := api_call_count st + 1\<rparr> in
      case py_contains ''usage'' response of
        Inl e \<Rightarrow> (Inl e, st1)
      | Inr has_usage \<Rightarrow>
          if has_usage then
            (case py_getitem response ''usage'' of
               Inl e \<Rightarrow> (Inl e, st1)
             | Inr usage \<Rightarrow>
                 (case py_get usage ''total_tokens'' (PInt 0) of
                    Inl e \<Rightarrow> (Inl e, st1)
                  | Inr token_usage \<Rightarrow>
                      (case py_iadd (total_token_usage st1) token_usage of
                         Inl e \<Rightarrow> (Inl e, st1)
                       | Inr new_total \<Rightarrow>
                           (let st2 = st1\<lparr>total_token_usage := new_total\<rparr>;
                                st3 = logging INFO [Lit ''API Call #'', Val (PInt (api_call_count st2)),
                                                    Lit '' ('', Lit operation, Lit '')''] st2;
                                st4 = logging INFO [Lit ''  Token Usage: '', Val token_usage] st3;
                                st5 = logging INFO [Lit ''  Total Token Usage: '',
                                                    Val (PInt (total_token_usage st4))] st4;
                                log_data = PDict
                                  [(''api_call'', PInt (api_call_count st5)),
                                   (''operation'', PStr operation),
                                   (''token_usage'', token_usage),
                                   (''total_token_usage'', PInt (total_token_usage st5)),
                                   (''timestamp'', PStr (now env))]
                            in (Inr (), write_to_file ''api_usage_log.json'' log_data env st5)))))
          else
            (Inr (), logging WARNING [Lit ''API Response for '', Lit operation,
                                      Lit '' did not include 'usage' data.''] st1))"

text \<open>
  \<open>insert\<close> and \<open>query\<close> take the outcome of the awaited engine call: \<open>Inl e\<close> when it
  raised \<open>e\<close>, \<open>Inr v\<close> when it returned \<open>v\<close>. Their own result is the same sum: the
  exception that leaves the method, or the value it returns. The handler
  \<open>except Exception as e\<close> logs and re-raises \<open>e\<close>; any other exception passes through.
  The values of \<open>asyncio.get_event_loop()\<close> and \<open>time.time()\<close> are bound and never
  read, so they do not appear.
\<close>

definition insert_handler :: "pyexc \<Rightarrow> wrapper \<Rightarrow> (pyexc + pyval) \<times> wrapper" where
  "insert_handler e st =
     (if is_Exception e
      then (Inl e, logging ERROR [Lit ''Error during document insertion: '', Exc e] st)
      else (Inl e, st))"

definition insert_op :: "wrapper \<Rightarrow> call_env \<Rightarrow> pyexc + pyval \<Rightarrow> (pyexc + pyval) \<times> wrapper" where
  "insert_op st env ainsert =
     (case ainsert of
        Inl e \<Rightarrow> insert_handler e st
      | Inr result \<Rightarrow>
          if result = PNone then
            (Inr PNone, logging WARNING [Lit ''Insert operation returned None.''] st)
          else
            (case log_api_usage ''insert'' result env st of
               (Inl e, st') \<Rightarrow> insert_handler e st'
             | (Inr u, st') \<Rightarrow>
                 (Inr result, logging INFO [Lit ''Document(s) inserted into LoggingLightRAG.''] st')))"

definition query_handler :: "pyexc \<Rightarrow> wrapper \<Rightarrow> (pyexc + pyval) \<times> wrapper" where
  "query_handler e st =
     (if is_Exception e
      then (Inl e, logging ERROR [Lit ''Error during query execution: '', Exc e] st)
      else (Inl e, st))"

definition query :: "wrapper \<Rightarrow> call_env \<Rightarrow> pyexc + pyval \<Rightarrow> (pyexc + pyval) \<times> wrapper" where
  "query st env super_query =
     (case super_query of
        Inl e \<Rightarrow> query_handler e st
      | Inr response \<Rightarrow>
          (case log_api_usage ''query'' response env st of
             (Inl e, st') \<Rightarrow> query_handler e st'
           | (Inr u, st') \<Rightarrow> (Inr response, st')))"


subsection \<open>Construction\<close>

definition set_logger :: "string \<Rightarrow> wrapper \<Rightarrow> wrapper" where
  "set_logger log_file st =
     logging INFO [Lit ''Logger initialized. Writing logs to '', Lit log_file, Lit ''.''] st"

text \<open>
  \<open>_log_initialization\<close>. \<open>mro\<close> lists the classes of \<open>self\<close>, \<open>dc_fields\<close> is
  \<open>asdict(self)\<close>, \<open>attrs\<close> is \<open>vars(self)\<close>, and \<open>fault\<close> is the OSError message
  when \<open>initialization.json\<close> cannot be opened. The condition of the conditional
  expression is evaluated first, inside the \<open>try\<close>. The result is the exception that
  leaves the method, if any, and the state.
\<close>

definition log_initialization ::
    "string list \<Rightarrow> (string \<times> pyval) list \<Rightarrow> (string \<times> pyval) list \<Rightarrow> string option \<Rightarrow>
     wrapper \<Rightarrow> pyexc option \<times> wrapper" where
  "log_initialization mro dc_fields attrs fault st =
     (let st1 = logging INFO
                  [Lit ''LoggingLightRAG initialized with the following parameters:''] st in
      case py_isinstance mro dataclass of
        Inl e \<Rightarrow>
          if is_Exception e
          then (None, logging ERROR
                        [Lit ''Error logging initialization parameters: '', Exc e] st1)
          else (Some e, st1)
      | Inr is_dc \<Rightarrow>
          (let attributes = (if is_dc then dc_fields else attrs);
               st2 = foldl (\<lambda>s (attr, value).
                              logging INFO [Lit ''- '', Lit attr, Lit '': '', Val value] s)
                       st1 attributes;
               init_file = path_join (log_dir st2) ''initialization.json''
           in case fault of
                Some m \<Rightarrow>
                  (None, logging ERROR
                           [Lit ''Error logging initialization parameters: '',
                            Exc (PyExc OSError m)] st2)
              | None \<Rightarrow>
                  (None, logging INFO
                           [Lit ''Initialization details written to '', Lit init_file, Lit ''.'']
                           (st2\<lparr>files := (files st2)(init_file \<mapsto> [PDict attributes])\<rparr>))))"

text \<open>
  What the environment contributes to a construction: the JSON files already on disk,
  whether \<open>os.makedirs\<close> fails, the outcome of the inherited constructor (the exception
  it raises or the dataclass fields it sets), whether the snapshot file can be opened, and the
  outcome of \<open>tiktoken.encoding_for_model\<close>.
\<close>

record ctor_env =
  disk :: "string \<rightharpoonup> pyval list"
  makedirs_fault :: "pyexc option"
  super_init :: "pyexc + (string \<times> pyval) list"
  snapshot_fault :: "string option"
  encoding_for_model :: "pyexc + string"

definition LoggingLightRAG_mro :: "string list" where
  "LoggingLightRAG_mro = [''LoggingLightRAG'', ''LightRAG'', ''object'']"

definition LoggingLightRAG_init :: "string \<Rightarrow> ctor_env \<Rightarrow> pyexc + wrapper" where
  "LoggingLightRAG_init dir cenv =
     (case makedirs_fault cenv of
        Some e \<Rightarrow> Inl e
      | None \<Rightarrow>
          (let log_file = path_join dir ''usage.log'';
               st0 = set_logger log_file
                       \<lparr>log_dir = dir, api_call_count = 0, total_token_usage = 0,
                        encoding = [], usage_log = [], files = disk cenv\<rparr>
           in case super_init cenv of
                Inl e \<Rightarrow> Inl e
              | Inr dc_fields \<Rightarrow>
                  (let st1 = st0\<lparr>api_call_count := 0\<rparr>;
                       st2 = st1\<lparr>total_token_usage := 0\<rparr>;
                       attrs = [(''log_dir'', PStr dir)] @ dc_fields @
                               [(''api_call_count'', PInt 0), (''total_token_usage'', PInt 0)]
                   in case log_initialization LoggingLightRAG_mro dc_fields attrs
                             (snapshot_fault cenv) st2 of
                        (Some e, st3) \<Rightarrow> Inl e
                      | (None, st3) \<Rightarrow>
                          (case encoding_for_model cenv of
                             Inl e \<Rightarrow> Inl e
                           | Inr enc \<Rightarrow> Inr (st3\<lparr>encoding := enc\<rparr>)))))"

subsection \<open>Sequences of calls\<close>

text \<open>A call is the method, the outcome of the engine call it awaits, and the
  environment of that call.\<close>

datatype call =
    Insert "pyexc + pyval" call_env
  | Query "pyexc + pyval" call_env

fun perform :: "wrapper \<Rightarrow> call \<Rightarrow> (pyexc + pyval) \<times> wrapper" where
  "perform st (Insert outcome env) = insert_op st env outcome"
| "perform st (Query outcome env) = query st env outcome"

fun run :: "wrapper \<Rightarrow> call list \<Rightarrow> wrapper" where
  "run st [] = st"
| "run st (c # cs) = run (snd (perform st c)) cs"

subsection \<open>Vocabulary of the properties\<close>

text \<open>
  The token count of a response that carries usage data: the response is a mapping
  whose \<open>usage\<close> entry is a mapping, and the count is its integer \<open>total_tokens\<close>
  entry, or 0 when that entry is absent.
\<close>

fun usage_tokens :: "pyval \<Rightarrow> int option" where
  "usage_tokens (PDict d) =
     (case map_of d ''usage'' of
        Some (PDict u) \<Rightarrow>
          (case map_of u ''total_tokens'' of
             None \<Rightarrow> Some 0
           | Some (PInt t) \<Rightarrow> Some t
           | Some other \<Rightarrow> None)
      | other \<Rightarrow> None)"
| "usage_tokens other = None"

fun call_tokens :: "call \<Rightarrow> int option" where
  "call_tokens (Insert (Inr r) env) = usage_tokens r"
| "call_tokens (Query (Inr r) env) = usage_tokens r"
| "call_tokens other = None"

text \<open>A call reports no negative token count.\<close>

definition nonneg_count :: "call \<Rightarrow> bool" where
  "nonneg_count c = (case call_tokens c of None \<Rightarrow> True | Some t \<Rightarrow> 0 \<le> t)"

fun env_of :: "call \<Rightarrow> call_env" where
  "env_of (Insert outcome env) = env"
| "env_of (Query outcome env) = env"

text \<open>The response shape the engine is expected to return: a mapping in which \<open>usage\<close>,
  when present, is a mapping whose \<open>total_tokens\<close>, when present, is an integer.\<close>

fun well_formed_response :: "pyval \<Rightarrow> bool" where
  "well_formed_response (PDict d) =
     (case map_of d ''usage'' of
        None \<Rightarrow> True
      | Some v \<Rightarrow> (case usage_tokens (PDict d) of None \<Rightarrow> False | Some t \<Rightarrow> True))"
| "well_formed_response other = False"


definition blocks :: "wrapper \<Rightarrow> string \<Rightarrow> pyval list" where
  "blocks st path = (case files st path of None \<Rightarrow> [] | Some bs \<Rightarrow> bs)"

definition api_usage_path :: "wrapper \<Rightarrow> string" where
  "api_usage_path st = path_join (log_dir st) ''api_usage_log.json''"

definition levels :: "wrapper \<Rightarrow> level list" where
  "levels st = map fst (usage_log st)"

text \<open>
  The records that a run of usage-bearing calls appends, given the counters before it:
  each call paired with its token count.
\<close>

fun operation_name :: "call \<Rightarrow> string" where
  "operation_name (Insert outcome env) = ''insert''"
| "operation_name (Query outcome env) = ''query''"

definition usage_record :: "int \<Rightarrow> string \<Rightarrow> int \<Rightarrow> int \<Rightarrow> string \<Rightarrow> pyval" where
  "usage_record n opn t tot stamp =
     PDict [(''api_call'', PInt n), (''operation'', PStr opn), (''token_usage'', PInt t),
            (''total_token_usage'', PInt tot), (''timestamp'', PStr stamp)]"

fun usage_records :: "int \<Rightarrow> int \<Rightarrow> (call \<times> int) list \<Rightarrow> pyval list" where
  "usage_records n tot [] = []"
| "usage_records n tot ((c, t) # cts) =
     usage_record (n + 1) (operation_name c) t (tot + t) (now (env_of c))
       # usage_records (n + 1) (tot + t) cts"

subsection \<open>A concrete construction and two calls\<close>

definition example_ctor :: ctor_env where
  "example_ctor =
     \<lparr>disk = Map.empty, makedirs_fault = None,
      super_init = Inr [(''working_dir'', PStr ''./cache''),
                        (''tiktoken_model_name'', PStr ''gpt-4o-mini'')],
      snapshot_fault = None, encoding_for_model = Inr ''o200k_base''\<rparr>"

definition example_wrapper :: wrapper where
  "example_wrapper = projr (LoggingLightRAG_init ''./logs'' example_ctor)"

definition example_env :: call_env where
  "example_env = \<lparr>now = ''2024-11-01 12:00:00'', write_fault = None\<rparr>"

definition example_calls :: "call list" where
  "example_calls =
     [Insert (Inr (PDict [(''usage'', PDict [(''total_tokens'', PInt 42)])])) example_env,
      Query (Inr (PDict [(''usage'', PDict [(''total_tokens'', PInt 8)])])) example_env]"

section \<open>Properties\<close>

subsection \<open>Effects of the methods on the state\<close>

lemma logging_simps [simp]:
  "api_call_count (logging lv m st) = api_call_count st"
  "total_token_usage (logging lv m st) = total_token_usage st"
  "log_dir (logging lv m st) = log_dir st"
  "encoding (logging lv m st) = encoding st"
  "files (logging lv m st) = files st"
  "usage_log (logging lv m st) = usage_log st @ [(lv, m)]"
  by (simp_all add: logging_def)

lemma blocks_logging [simp]: "blocks (logging lv m st) p = blocks st p"
  by (simp add: blocks_def)

lemma write_to_file_simps [simp]:
  "api_call_count (write_to_file f d env st) = api_call_count st"
  "total_token_usage (write_to_file f d env st) = total_token_usage st"
  "log_dir (write_to_file f d env st) = log_dir st"
  "encoding (write_to_file f d env st) = encoding st"
  by (simp_all add: write_to_file_def Let_def split: option.splits)

lemma write_to_file_files:
  "files (write_to_file f d env st) =
     (case write_fault env of
        None \<Rightarrow> (files st)(path_join (log_dir st) f \<mapsto> blocks st (path_join (log_dir st) f) @ [d])
      | Some m \<Rightarrow> files st)"
  by (simp add: write_to_file_def Let_def blocks_def split: option.splits)

lemma log_api_usage_count [simp]:
  "api_call_count (snd (log_api_usage opn r env st)) = api_call_count st + 1"
  by (simp add: log_api_usage_def Let_def split: sum.splits)

lemma log_api_usage_log_dir [simp]:
  "log_dir (snd (log_api_usage opn r env st)) = log_dir st"
  by (simp add: log_api_usage_def Let_def split: sum.splits)

lemma log_api_usage_present:
  assumes "map_of d ''usage'' = Some (PDict u)" "map_of u ''total_tokens'' = Some (PInt t)"
  shows "log_api_usage opn (PDict d) env st =
    (Inr (), write_to_file ''api_usage_log.json''
               (usage_record (api_call_count st + 1) opn t (total_token_usage st + t) (now env)) env
               (logging INFO [Lit ''  Total Token Usage: '', Val (PInt (total_token_usage st + t))]
                 (logging INFO [Lit ''  Token Usage: '', Val (PInt t)]
                   (logging INFO [Lit ''API Call #'', Val (PInt (api_call_count st + 1)),
                                  Lit '' ('', Lit opn, Lit '')'']
                     (st\<lparr>api_call_count := api_call_count st + 1,
                         total_token_usage := total_token_usage st + t\<rparr>)))))"
  using assms by (simp add: log_api_usage_def Let_def usage_record_def)

lemma log_api_usage_absent:
  assumes "map_of d ''usage'' = Some (PDict u)" "map_of u ''total_tokens'' = None"
  shows "log_api_usage opn (PDict d) env st =
    (Inr (), write_to_file ''api_usage_log.json''
               (usage_record (api_call_count st + 1) opn 0 (total_token_usage st) (now env)) env
               (logging INFO [Lit ''  Total Token Usage: '', Val (PInt (total_token_usage st))]
                 (logging INFO [Lit ''  Token Usage: '', Val (PInt 0)]
                   (logging INFO [Lit ''API Call #'', Val (PInt (api_call_count st + 1)),
                                  Lit '' ('', Lit opn, Lit '')'']
                     (st\<lparr>api_call_count := api_call_count st + 1,
                         total_token_usage := total_token_usage st\<rparr>)))))"
  using assms by (simp add: log_api_usage_def Let_def usage_record_def)

lemma log_api_usage_lacking:
  assumes "py_contains ''usage'' r = Inr False"
  shows "log_api_usage opn r env st =
    (Inr (), logging WARNING [Lit ''API Response for '', Lit opn,
                              Lit '' did not include 'usage' data.'']
               (st\<lparr>api_call_count := api_call_count st + 1\<rparr>))"
  using assms by (simp add: log_api_usage_def Let_def)

lemma log_api_usage_none_total:
  assumes "usage_tokens r = None"
  shows "total_token_usage (snd (log_api_usage opn r env st)) = total_token_usage st"
    and "files (snd (log_api_usage opn r env st)) = files st"
  using assms
  by (cases r; auto simp add: log_api_usage_def Let_def split: option.splits pyval.splits sum.splits)+


lemma usage_tokens_Some:
  assumes "usage_tokens r = Some t"
  shows "\<exists>d u. r = PDict d \<and> map_of d ''usage'' = Some (PDict u) \<and>
           (map_of u ''total_tokens'' = Some (PInt t) \<or> (map_of u ''total_tokens'' = None \<and> t = 0))"
proof (cases r)
  case (PDict d)
  with assms show ?thesis
    by (auto split: option.splits pyval.splits)
qed (use assms in simp_all)

lemma log_api_usage_usage:
  assumes "usage_tokens r = Some t"
  shows "log_api_usage opn r env st =
    (Inr (), write_to_file ''api_usage_log.json''
               (usage_record (api_call_count st + 1) opn t (total_token_usage st + t) (now env)) env
               (logging INFO [Lit ''  Total Token Usage: '', Val (PInt (total_token_usage st + t))]
                 (logging INFO [Lit ''  Token Usage: '', Val (PInt t)]
                   (logging INFO [Lit ''API Call #'', Val (PInt (api_call_count st + 1)),
                                  Lit '' ('', Lit opn, Lit '')'']
                     (st\<lparr>api_call_count := api_call_count st + 1,
                         total_token_usage := total_token_usage st + t\<rparr>)))))"
proof -
  from usage_tokens_Some [OF assms] obtain d u where r: "r = PDict d"
    and u: "map_of d ''usage'' = Some (PDict u)"
    and t: "map_of u ''total_tokens'' = Some (PInt t) \<or> (map_of u ''total_tokens'' = None \<and> t = 0)"
    by blast
  from t show ?thesis
  proof
    assume "map_of u ''total_tokens'' = Some (PInt t)"
    with u show ?thesis unfolding r by (rule log_api_usage_present)
  next
    assume "map_of u ''total_tokens'' = None \<and> t = 0"
    with log_api_usage_absent [OF u, of opn env st] show ?thesis unfolding r by simp
  qed
qed

lemma log_api_usage_total:
  "total_token_usage (snd (log_api_usage opn r env st)) =
     total_token_usage st + (case usage_tokens r of Some t \<Rightarrow> t | None \<Rightarrow> 0)"
proof (cases "usage_tokens r")
  case None
  then show ?thesis by (simp add: log_api_usage_none_total)
next
  case (Some t)
  then show ?thesis by (simp add: log_api_usage_usage)
qed

lemma handler_simps [simp]:
  "fst (insert_handler e st) = Inl e"
  "fst (query_handler e st) = Inl e"
  "api_call_count (snd (insert_handler e st)) = api_call_count st"
  "api_call_count (snd (query_handler e st)) = api_call_count st"
  "total_token_usage (snd (insert_handler e st)) = total_token_usage st"
  "total_token_usage (snd (query_handler e st)) = total_token_usage st"
  "log_dir (snd (insert_handler e st)) = log_dir st"
  "log_dir (snd (query_handler e st)) = log_dir st"
  "files (snd (insert_handler e st)) = files st"
  "files (snd (query_handler e st)) = files st"
  by (simp_all add: insert_handler_def query_handler_def)

lemma insert_op_returned:
  assumes "r \<noteq> PNone"
  shows "insert_op st env (Inr r) =
    (case fst (log_api_usage ''insert'' r env st) of
       Inl e \<Rightarrow> insert_handler e (snd (log_api_usage ''insert'' r env st))
     | Inr u \<Rightarrow> (Inr r, logging INFO [Lit ''Document(s) inserted into LoggingLightRAG.'']
                         (snd (log_api_usage ''insert'' r env st))))"
  using assms by (simp add: insert_op_def split: prod.splits sum.splits)

lemma query_returned:
  "query st env (Inr r) =
    (case fst (log_api_usage ''query'' r env st) of
       Inl e \<Rightarrow> query_handler e (snd (log_api_usage ''query'' r env st))
     | Inr u \<Rightarrow> (Inr r, snd (log_api_usage ''query'' r env st)))"
  by (simp add: query_def split: prod.splits sum.splits)

lemma perform_log_dir [simp]: "log_dir (snd (perform st c)) = log_dir st"
proof (cases c)
  case (Insert outcome env)
  then show ?thesis
    by (cases outcome; cases "outcome = Inr PNone")
       (auto simp add: insert_op_returned split: sum.splits, simp_all add: insert_op_def)
next
  case (Query outcome env)
  then show ?thesis
    by (cases outcome) (auto simp add: query_returned split: sum.splits, simp add: query_def)
qed

lemma perform_total:
  "total_token_usage (snd (perform st c)) =
     total_token_usage st + (case call_tokens c of Some t \<Rightarrow> t | None \<Rightarrow> 0)"
proof (cases c)
  case (Insert outcome env)
  show ?thesis
  proof (cases outcome)
    case (Inl e)
    with Insert show ?thesis by (simp add: insert_op_def)
  next
    case (Inr r)
    show ?thesis
    proof (cases "r = PNone")
      case True
      with Insert Inr show ?thesis by (simp add: insert_op_def)
    next
      case False
      with Insert Inr show ?thesis
        by (simp add: insert_op_returned log_api_usage_total split: sum.splits)
    qed
  qed
next
  case (Query outcome env)
  show ?thesis
  proof (cases outcome)
    case (Inl e)
    with Query show ?thesis by (simp add: query_def)
  next
    case (Inr r)
    with Query show ?thesis
      by (simp add: query_returned log_api_usage_total split: sum.splits)
  qed
qed

lemma perform_count_mono: "api_call_count st \<le> api_call_count (snd (perform st c))"
proof (cases c)
  case (Insert outcome env)
  show ?thesis
  proof (cases outcome)
    case (Inl e)
    with Insert show ?thesis by (simp add: insert_op_def)
  next
    case (Inr r)
    show ?thesis
    proof (cases "r = PNone")
      case True
      with Insert Inr show ?thesis by (simp add: insert_op_def)
    next
      case False
      with Insert Inr show ?thesis
        by (simp add: insert_op_returned split: sum.splits)
    qed
  qed
next
  case (Query outcome env)
  show ?thesis
  proof (cases outcome)
    case (Inl e)
    with Query show ?thesis by (simp add: query_def)
  next
    case (Inr r)
    with Query show ?thesis
      by (simp add: query_returned split: sum.splits)
  qed
qed

text \<open>A usage-bearing call.\<close>

lemma call_tokens_Some:
  assumes "call_tokens c = Some t"
  shows "\<exists>r env. (c = Insert (Inr r) env \<or> c = Query (Inr r) env) \<and> usage_tokens r = Some t"
  using assms by (cases c rule: call_tokens.cases) auto

lemma perform_usage:
  assumes "call_tokens c = Some t"
  shows "api_call_count (snd (perform st c)) = api_call_count st + 1"
    and "files (snd (perform st c)) =
      (case write_fault (env_of c) of
         None \<Rightarrow> (files st)(api_usage_path st \<mapsto> blocks st (api_usage_path st) @
                    [usage_record (api_call_count st + 1) (operation_name c) t
                       (total_token_usage st + t) (now (env_of c))])
       | Some m \<Rightarrow> files st)"
proof -
  from call_tokens_Some [OF assms] obtain r env
    where c: "c = Insert (Inr r) env \<or> c = Query (Inr r) env" and r: "usage_tokens r = Some t"
    by blast
  from r have nn: "r \<noteq> PNone" by auto
  from c show "api_call_count (snd (perform st c)) = api_call_count st + 1"
    by (auto simp add: insert_op_returned [OF nn] query_returned log_api_usage_usage [OF r])
  from c show "files (snd (perform st c)) =
      (case write_fault (env_of c) of
         None \<Rightarrow> (files st)(api_usage_path st \<mapsto> blocks st (api_usage_path st) @
                    [usage_record (api_call_count st + 1) (operation_name c) t
                       (total_token_usage st + t) (now (env_of c))])
       | Some m \<Rightarrow> files st)"
    by (auto simp add: insert_op_returned [OF nn] query_returned log_api_usage_usage [OF r]
          write_to_file_files api_usage_path_def blocks_def split: option.splits)
qed

lemma failed_append_leaves_files:
  assumes "call_tokens c = Some t" and "write_fault (env_of c) = Some m"
  shows "files (snd (perform st c)) = files st"
  using perform_usage(2) [OF assms(1), of st] assms(2) by simp

subsection \<open>Construction: the snapshot\<close>

lemma log_initialization_raises:
  "log_initialization mro dc_fields attrs fault st =
     (None, logging ERROR
              [Lit ''Error logging initialization parameters: '',
               Exc (PyExc TypeError
                      ''isinstance() arg 2 must be a type, a tuple of types, or a union'')]
              (logging INFO
                 [Lit ''LoggingLightRAG initialized with the following parameters:''] st))"
  by (simp add: log_initialization_def dataclass_def)

lemma LoggingLightRAG_init_fresh:
  assumes "LoggingLightRAG_init dir cenv = Inr st"
  shows "api_call_count st = 0" and "total_token_usage st = 0" and "log_dir st = dir"
    and "files st = disk cenv"
  using assms
  by (auto simp add: LoggingLightRAG_init_def log_initialization_raises set_logger_def Let_def
        split: option.splits sum.splits)

lemma example_construction:
  "LoggingLightRAG_init ''./logs'' example_ctor = Inr example_wrapper"
  by (simp add: example_wrapper_def LoggingLightRAG_init_def example_ctor_def
        log_initialization_raises Let_def)

subsection \<open>The claims\<close>

text \<open>
  C6. When the engine's insert returns \<open>None\<close>, \<open>insert\<close> returns \<open>None\<close>, logs one
  warning, leaves both counters as they were and writes no record.
\<close>

theorem insert_none_result:
  "fst (insert_op st env (Inr PNone)) = Inr PNone
   \<and> usage_log (snd (insert_op st env (Inr PNone))) =
       usage_log st @ [(WARNING, [Lit ''Insert operation returned None.''])]
   \<and> api_call_count (snd (insert_op st env (Inr PNone))) = api_call_count st
   \<and> total_token_usage (snd (insert_op st env (Inr PNone))) = total_token_usage st
   \<and> files (snd (insert_op st env (Inr PNone))) = files st"
  by (simp add: insert_op_def)

text \<open>
  C10. When the engine call raises, whatever the exception, \<open>insert\<close> and \<open>query\<close>
  leave both counters and every JSON file as they were before the call.
\<close>

theorem delegate_exception_keeps_state:
  "api_call_count (snd (insert_op st env (Inl e))) = api_call_count st
   \<and> total_token_usage (snd (insert_op st env (Inl e))) = total_token_usage st
   \<and> files (snd (insert_op st env (Inl e))) = files st
   \<and> api_call_count (snd (query st env (Inl e))) = api_call_count st
   \<and> total_token_usage (snd (query st env (Inl e))) = total_token_usage st
   \<and> files (snd (query st env (Inl e))) = files st"
  by (simp add: insert_op_def query_def)

text \<open>
  C5 as stated fails: the handlers are \<open>except Exception\<close>, so an exception that is
  not an instance of \<open>Exception\<close> leaves the method with no error line. When the
  awaited engine call raises \<open>CancelledError\<close>, \<open>insert\<close> and \<open>query\<close> raise it
  and leave the state, the log included, as it was.
\<close>

theorem cancelled_call_logs_nothing:
  "insert_op example_wrapper example_env (Inl (PyExc CancelledError [])) =
     (Inl (PyExc CancelledError []), example_wrapper)
   \<and> query example_wrapper example_env (Inl (PyExc CancelledError [])) =
     (Inl (PyExc CancelledError []), example_wrapper)
   \<and> usage_log (snd (query example_wrapper example_env (Inl (PyExc CancelledError [])))) =
     usage_log example_wrapper"
  by (simp add: insert_op_def query_def insert_handler_def query_handler_def)

text \<open>
  C5, amended. When the engine call raises an instance of \<open>Exception\<close>, \<open>insert\<close>
  and \<open>query\<close> raise that same exception, and the only change to the state is one
  error line appended to the log.
\<close>

theorem delegate_exception_propagates:
  assumes "is_Exception e"
  shows "insert_op st env (Inl e) =
           (Inl e, logging ERROR [Lit ''Error during document insertion: '', Exc e] st)
         \<and> query st env (Inl e) =
           (Inl e, logging ERROR [Lit ''Error during query execution: '', Exc e] st)"
  using assms by (simp add: insert_op_def query_def insert_handler_def query_handler_def)

theorem delegate_exception_propagates_witness:
  "is_Exception (PyExc (OtherException ''RateLimitError'') ''quota exceeded'')
   \<and> fst (insert_op example_wrapper example_env
            (Inl (PyExc (OtherException ''RateLimitError'') ''quota exceeded''))) =
       Inl (PyExc (OtherException ''RateLimitError'') ''quota exceeded'')
   \<and> fst (query example_wrapper example_env
            (Inl (PyExc (OtherException ''RateLimitError'') ''quota exceeded''))) =
       Inl (PyExc (OtherException ''RateLimitError'') ''quota exceeded'')
   \<and> levels (snd (query example_wrapper example_env
            (Inl (PyExc (OtherException ''RateLimitError'') ''quota exceeded'')))) =
       levels example_wrapper @ [ERROR]"
  using delegate_exception_propagates
          [of "PyExc (OtherException ''RateLimitError'') ''quota exceeded''"
              example_wrapper example_env]
  by (simp add: levels_def)

lemma run_usage_counters:
  assumes "map call_tokens cs = map Some ts"
  shows "total_token_usage (run st cs) = total_token_usage st + sum_list ts
         \<and> api_call_count (run st cs) = api_call_count st + int (length ts)"
  using assms
proof (induction cs arbitrary: st ts)
  case Nil
  then show ?case by simp
next
  case (Cons c cs)
  then obtain t ts' where ts: "ts = t # ts'" and c: "call_tokens c = Some t"
    and rest: "map call_tokens cs = map Some ts'"
    by (cases ts) auto
  from Cons.IH [OF rest, of "snd (perform st c)"] c show ?case
    by (simp add: ts perform_total perform_usage(1))
qed

text \<open>
  C1. On a wrapper as constructed, after a sequence of calls whose responses all carry
  usage data with token counts \<open>ts\<close>, \<open>total_token_usage\<close> is the sum of \<open>ts\<close> and
  \<open>api_call_count\<close> is the number of calls.
\<close>

theorem usage_counters_after_calls:
  assumes "LoggingLightRAG_init dir cenv = Inr st0"
    and "map call_tokens cs = map Some ts"
  shows "total_token_usage (run st0 cs) = sum_list ts
         \<and> api_call_count (run st0 cs) = int (length cs)"
proof -
  from assms(2) have "length cs = length ts"
    by (metis length_map)
  with run_usage_counters [OF assms(2), of st0] LoggingLightRAG_init_fresh(1,2) [OF assms(1)]
  show ?thesis by simp
qed

theorem usage_counters_after_calls_witness:
  "LoggingLightRAG_init ''./logs'' example_ctor = Inr example_wrapper
   \<and> map call_tokens example_calls = map Some [42, 8]
   \<and> total_token_usage (run example_wrapper example_calls) = 50
   \<and> api_call_count (run example_wrapper example_calls) = 2"
proof -
  have tokens: "map call_tokens example_calls = map Some [42, 8]"
    by (simp add: example_calls_def)
  from usage_counters_after_calls [OF example_construction tokens] example_construction tokens
  show ?thesis by (simp add: example_calls_def)
qed

lemma run_count_mono: "api_call_count st \<le> api_call_count (run st cs)"
proof (induction cs arbitrary: st)
  case Nil
  show ?case by simp
next
  case (Cons c cs)
  from perform_count_mono [of st c] Cons [of "snd (perform st c)"] show ?case by simp
qed

lemma run_total_mono:
  assumes "list_all nonneg_count cs"
  shows "total_token_usage st \<le> total_token_usage (run st cs)"
  using assms
proof (induction cs arbitrary: st)
  case Nil
  show ?case by simp
next
  case (Cons c cs)
  then have step: "total_token_usage st \<le> total_token_usage (snd (perform st c))"
    by (cases "call_tokens c") (simp_all add: perform_total nonneg_count_def)
  from Cons have "total_token_usage (snd (perform st c)) \<le> total_token_usage (run (snd (perform st c)) cs)"
    by simp
  with step show ?case by simp
qed

text \<open>
  C8 as stated fails: the reported count is added unchecked, so a response that reports
  a negative count lowers \<open>total_token_usage\<close>. On the example wrapper, whose total
  is 0, a query whose response reports \<open>-5\<close> tokens leaves the total at \<open>-5\<close>.
\<close>

theorem negative_count_lowers_total:
  "total_token_usage example_wrapper = 0
   \<and> total_token_usage (snd (query example_wrapper example_env
         (Inr (PDict [(''usage'', PDict [(''total_tokens'', PInt (- 5))])])))) = - 5"
  using LoggingLightRAG_init_fresh(2) [OF example_construction]
    perform_total [of example_wrapper
      "Query (Inr (PDict [(''usage'', PDict [(''total_tokens'', PInt (- 5))])])) example_env"]
  by simp

text \<open>
  C8, amended. Both counters are 0 on a wrapper as constructed. Over any sequence of
  calls \<open>api_call_count\<close> never decreases, and \<open>total_token_usage\<close> never decreases
  as long as the token counts reported by the engine are not negative.
\<close>

theorem counters_start_at_zero_and_grow:
  "(LoggingLightRAG_init dir cenv = Inr st0 \<longrightarrow>
      api_call_count st0 = 0 \<and> total_token_usage st0 = 0)
   \<and> api_call_count st \<le> api_call_count (run st cs)
   \<and> (list_all nonneg_count cs \<longrightarrow>
        total_token_usage st \<le> total_token_usage (run st cs))"
  using LoggingLightRAG_init_fresh(1,2) [of dir cenv st0] run_count_mono [of st cs]
    run_total_mono [of cs st]
  by blast

theorem counters_start_at_zero_and_grow_witness:
  "LoggingLightRAG_init ''./logs'' example_ctor = Inr example_wrapper
   \<and> list_all nonneg_count example_calls
   \<and> api_call_count example_wrapper = 0 \<and> total_token_usage example_wrapper = 0
   \<and> api_call_count example_wrapper \<le> api_call_count (run example_wrapper example_calls)
   \<and> total_token_usage example_wrapper \<le> total_token_usage (run example_wrapper example_calls)"
proof -
  have nonneg: "list_all nonneg_count example_calls"
    by (simp add: example_calls_def nonneg_count_def)
  from counters_start_at_zero_and_grow
         [of "''./logs''" example_ctor example_wrapper example_wrapper example_calls]
       example_construction nonneg
  show ?thesis by blast
qed

lemma log_api_usage_well_formed:
  assumes "well_formed_response r"
  shows "fst (log_api_usage opn r env st) = Inr ()"
proof (cases r)
  case (PDict d)
  show ?thesis
  proof (cases "map_of d ''usage''")
    case None
    with PDict have "py_contains ''usage'' r = Inr False" by simp
    then show ?thesis by (simp add: log_api_usage_lacking)
  next
    case (Some v)
    with assms PDict obtain t where "usage_tokens r = Some t"
      by (auto split: option.splits)
    then show ?thesis by (simp add: log_api_usage_usage)
  qed
qed (use assms in simp_all)

text \<open>
  C7 as stated fails: usage extraction runs before the response is returned and raises
  on a response whose \<open>usage\<close> entry is not a mapping. A response that is not
  \<open>None\<close> and carries \<open>"usage": None\<close> makes \<open>query\<close> and \<open>insert\<close> raise
  AttributeError instead of returning it.
\<close>

theorem malformed_usage_raises:
  "PDict [(''answer'', PStr ''Paris''), (''usage'', PNone)] \<noteq> PNone
   \<and> fst (query example_wrapper example_env
            (Inr (PDict [(''answer'', PStr ''Paris''), (''usage'', PNone)]))) =
       Inl (PyExc AttributeError ''NoneType object has no attribute get'')
   \<and> fst (insert_op example_wrapper example_env
            (Inr (PDict [(''answer'', PStr ''Paris''), (''usage'', PNone)]))) =
       Inl (PyExc AttributeError ''NoneType object has no attribute get'')"
  by (simp add: query_def insert_op_def log_api_usage_def Let_def)

text \<open>
  C7, amended. When the engine returns a response of the expected shape (a mapping,
  hence not \<open>None\<close>, whose \<open>usage\<close> entry, if present, is a mapping whose
  \<open>total_tokens\<close> entry, if present, is an integer), \<open>insert\<close> and \<open>query\<close> return
  that response itself.
\<close>

theorem response_returned_unchanged:
  assumes "well_formed_response r"
  shows "fst (insert_op st env (Inr r)) = Inr r \<and> fst (query st env (Inr r)) = Inr r"
proof -
  from assms have "r \<noteq> PNone" by auto
  with log_api_usage_well_formed [OF assms] show ?thesis
    by (simp add: insert_op_returned query_returned)
qed

theorem response_returned_unchanged_witness:
  "well_formed_response (PDict [(''answer'', PStr ''Paris''),
                                (''usage'', PDict [(''total_tokens'', PInt 8)])])
   \<and> fst (insert_op example_wrapper example_env
            (Inr (PDict [(''answer'', PStr ''Paris''),
                         (''usage'', PDict [(''total_tokens'', PInt 8)])]))) =
       Inr (PDict [(''answer'', PStr ''Paris''), (''usage'', PDict [(''total_tokens'', PInt 8)])])
   \<and> fst (query example_wrapper example_env
            (Inr (PDict [(''answer'', PStr ''Paris''),
                         (''usage'', PDict [(''total_tokens'', PInt 8)])]))) =
       Inr (PDict [(''answer'', PStr ''Paris''), (''usage'', PDict [(''total_tokens'', PInt 8)])])"
proof -
  have wf: "well_formed_response (PDict [(''answer'', PStr ''Paris''),
                                (''usage'', PDict [(''total_tokens'', PInt 8)])])"
    by simp
  from response_returned_unchanged [OF wf, of example_wrapper example_env] wf
  show ?thesis by blast
qed

text \<open>
  C2 as stated fails: a response without usage data still counts as an API call. On the
  example wrapper, whose counter is 0, an insert whose response is a mapping without a
  \<open>usage\<close> entry leaves the counter at 1.
\<close>

theorem missing_usage_counts_call:
  "py_contains ''usage'' (PDict [(''answer'', PStr ''Paris'')]) = Inr False
   \<and> api_call_count example_wrapper = 0
   \<and> api_call_count (snd (insert_op example_wrapper example_env
                             (Inr (PDict [(''answer'', PStr ''Paris'')])))) = 1"
  using LoggingLightRAG_init_fresh(1) [OF example_construction]
  by (simp add: insert_op_returned log_api_usage_lacking)

text \<open>
  C2, amended. When the test \<open>'usage' in response\<close> is false, \<open>insert\<close> and \<open>query\<close>
  return the response, log one warning, leave \<open>total_token_usage\<close> and every JSON file
  as they were, and increase \<open>api_call_count\<close> by one.
\<close>

theorem missing_usage_skips_accounting:
  assumes "py_contains ''usage'' r = Inr False"
  shows "insert_op st env (Inr r) =
           (Inr r, logging INFO [Lit ''Document(s) inserted into LoggingLightRAG.'']
                     (logging WARNING [Lit ''API Response for '', Lit ''insert'',
                                       Lit '' did not include 'usage' data.'']
                        (st\<lparr>api_call_count := api_call_count st + 1\<rparr>)))
         \<and> query st env (Inr r) =
           (Inr r, logging WARNING [Lit ''API Response for '', Lit ''query'',
                                    Lit '' did not include 'usage' data.'']
                     (st\<lparr>api_call_count := api_call_count st + 1\<rparr>))
         \<and> total_token_usage (snd (insert_op st env (Inr r))) = total_token_usage st
         \<and> total_token_usage (snd (query st env (Inr r))) = total_token_usage st
         \<and> files (snd (insert_op st env (Inr r))) = files st
         \<and> files (snd (query st env (Inr r))) = files st
         \<and> api_call_count (snd (insert_op st env (Inr r))) = api_call_count st + 1
         \<and> api_call_count (snd (query st env (Inr r))) = api_call_count st + 1"
proof -
  from assms have "r \<noteq> PNone" by auto
  then show ?thesis
    by (simp add: insert_op_returned query_returned log_api_usage_lacking [OF assms])
qed

theorem missing_usage_skips_accounting_witness:
  "py_contains ''usage'' (PDict [(''answer'', PStr ''Paris'')]) = Inr False
   \<and> fst (query example_wrapper example_env (Inr (PDict [(''answer'', PStr ''Paris'')]))) =
       Inr (PDict [(''answer'', PStr ''Paris'')])
   \<and> levels (snd (query example_wrapper example_env
                     (Inr (PDict [(''answer'', PStr ''Paris'')])))) =
       levels example_wrapper @ [WARNING]
   \<and> total_token_usage (snd (query example_wrapper example_env
                     (Inr (PDict [(''answer'', PStr ''Paris'')])))) =
       total_token_usage example_wrapper
   \<and> files (snd (insert_op example_wrapper example_env
                     (Inr (PDict [(''answer'', PStr ''Paris'')])))) = files example_wrapper
   \<and> api_call_count (snd (insert_op example_wrapper example_env
                     (Inr (PDict [(''answer'', PStr ''Paris'')])))) =
       api_call_count example_wrapper + 1"
proof -
  have lacking: "py_contains ''usage'' (PDict [(''answer'', PStr ''Paris'')]) = Inr False"
    by simp
  from missing_usage_skips_accounting [OF lacking, of example_wrapper example_env] lacking
  show ?thesis by (simp add: levels_def)
qed



lemma api_usage_path_perform [simp]: "api_usage_path (snd (perform st c)) = api_usage_path st"
  by (simp add: api_usage_path_def)

lemma run_records:
  assumes "map call_tokens cs = map Some ts"
    and "\<forall>c\<in>set cs. write_fault (env_of c) = None"
  shows "blocks (run st cs) (api_usage_path st) =
           blocks st (api_usage_path st) @
             usage_records (api_call_count st) (total_token_usage st) (zip cs ts)"
  using assms
proof (induction cs arbitrary: st ts)
  case Nil
  then show ?case by simp
next
  case (Cons c cs)
  then obtain t ts' where ts: "ts = t # ts'" and c: "call_tokens c = Some t"
    and rest: "map call_tokens cs = map Some ts'"
    by (cases ts) auto
  from Cons.prems(2) have env: "write_fault (env_of c) = None"
    and envs: "\<forall>c\<in>set cs. write_fault (env_of c) = None"
    by simp_all
  have first: "blocks (snd (perform st c)) (api_usage_path st) =
      blocks st (api_usage_path st) @
        [usage_record (api_call_count st + 1) (operation_name c) t
           (total_token_usage st + t) (now (env_of c))]"
    by (simp add: blocks_def [of "snd (perform st c)"] perform_usage(2) [OF c] env)
  from Cons.IH [OF rest envs, of "snd (perform st c)"]
  show ?case
    by (simp add: ts first perform_usage(1) [OF c] perform_total c)
qed

lemma length_usage_records [simp]: "length (usage_records n tot cts) = length cts"
  by (induction n tot cts rule: usage_records.induct) simp_all




lemma example_log:
  "blocks (run example_wrapper example_calls) ''./logs/api_usage_log.json'' =
     [usage_record 1 ''insert'' 42 42 ''2024-11-01 12:00:00'',
      usage_record 2 ''query'' 8 50 ''2024-11-01 12:00:00'']"
proof -
  have tokens: "map call_tokens example_calls = map Some [42, 8]"
    by (simp add: example_calls_def)
  have writes: "\<forall>c\<in>set example_calls. write_fault (env_of c) = None"
    by (simp add: example_calls_def example_env_def)
  have path: "api_usage_path example_wrapper = ''./logs/api_usage_log.json''"
    using LoggingLightRAG_init_fresh(3) [OF example_construction]
    by (simp add: api_usage_path_def path_join_def)
  have empty: "blocks example_wrapper ''./logs/api_usage_log.json'' = []"
    using LoggingLightRAG_init_fresh(4) [OF example_construction]
    by (simp add: blocks_def example_ctor_def)
  from run_records [OF tokens writes, of example_wrapper]
    LoggingLightRAG_init_fresh(1,2) [OF example_construction]
  show ?thesis
    by (simp add: path empty example_calls_def example_env_def)
qed

text \<open>
  C4. The snapshot is not written. \<open>isinstance(self, dataclass)\<close> raises TypeError
  before the attributes are read, so every run of \<open>_log_initialization\<close> ends in its
  handler: an error line is logged, construction goes on, and no file is touched. On
  the example construction, with an empty disk and no fault of the environment, the
  wrapper is built, its log holds the lines of \<open>_set_logger\<close> and of
  \<open>_log_initialization\<close> (the last one the error), and \<open>initialization.json\<close> does
  not exist.
\<close>

theorem snapshot_not_written:
  "LoggingLightRAG_init ''./logs'' example_ctor = Inr example_wrapper
   \<and> files example_wrapper (path_join ''./logs'' ''initialization.json'') = None
   \<and> levels example_wrapper = [INFO, INFO, ERROR]"
proof -
  have "levels example_wrapper = [INFO, INFO, ERROR]"
    by (simp add: example_wrapper_def LoggingLightRAG_init_def example_ctor_def
          log_initialization_raises set_logger_def levels_def Let_def)
  with example_construction LoggingLightRAG_init_fresh(4) [OF example_construction]
  show ?thesis by (simp add: example_ctor_def)
qed

end
